theory Spec2Isabelle
  imports Main "HOL-Library.Word"
begin

section \<open>Keyless door lock: the controller of Keyless.ino\<close>

text \<open>
  The sketch runs on an ATmega328P: \<open>int\<close> is a 16-bit two's complement integer,
  \<open>unsigned long\<close> has 32 bits and the EEPROM holds bytes. The global variables of
  the sketch, the output port, the EEPROM cells the sketch uses and the list of the
  writes it has issued make up the state. The input pins and the content of a local
  variable that is read before it is assigned belong to the world around the program.
  Time is counted in milliseconds since power-on; it advances in \<open>delay\<close> and between
  two steps of the program. The encoder interrupt is taken between two steps.
  The diagnostic output on the serial line is left out.
\<close>

subsection \<open>Types and constants\<close>

type_synonym int16 = "16 word"
type_synonym ulong = "32 word"
type_synonym byte = "8 word"

abbreviation PIN_J_RESET :: nat where "PIN_J_RESET \<equiv> 6"
abbreviation PIN_J_ERROR_YES :: nat where "PIN_J_ERROR_YES \<equiv> 8"
abbreviation PIN_J_NO_RELEASE :: nat where "PIN_J_NO_RELEASE \<equiv> 13"
abbreviation PIN_BUTTON :: nat where "PIN_BUTTON \<equiv> 5"
abbreviation PIN_SENSOR :: nat where "PIN_SENSOR \<equiv> 2"
abbreviation PIN_DAYNIGHT :: nat where "PIN_DAYNIGHT \<equiv> 4"
abbreviation PIN_MOTOR_ENABLE :: nat where "PIN_MOTOR_ENABLE \<equiv> 10"
abbreviation PIN_MOTOR_1 :: nat where "PIN_MOTOR_1 \<equiv> 12"
abbreviation PIN_MOTOR_2 :: nat where "PIN_MOTOR_2 \<equiv> 11"

abbreviation MOTOR_TIMEOUT :: ulong where "MOTOR_TIMEOUT \<equiv> 250"
abbreviation SECURITY_TIMEOUT :: ulong where "SECURITY_TIMEOUT \<equiv> 3000"
abbreviation CLOSE_WAIT :: nat where "CLOSE_WAIT \<equiv> 1500"
abbreviation LOCK_WAIT :: nat where "LOCK_WAIT \<equiv> 1000"
abbreviation EEPROM_LOC_CONF :: nat where "EEPROM_LOC_CONF \<equiv> 0"
abbreviation EEPROM_LOC_LAST :: nat where "EEPROM_LOC_LAST \<equiv> 64"

abbreviation LOW :: int16 where "LOW \<equiv> 0"
abbreviation HIGH :: int16 where "HIGH \<equiv> 1"

text \<open>The enumerators; the variables that hold them are plain \<open>int\<close>s.\<close>

abbreviation opNothing :: int16 where "opNothing \<equiv> 0"
abbreviation opOpen :: int16 where "opOpen \<equiv> 1"
abbreviation opRelease :: int16 where "opRelease \<equiv> 2"
abbreviation opLock :: int16 where "opLock \<equiv> 3"
abbreviation opUnlock :: int16 where "opUnlock \<equiv> 4"

abbreviation posLocked :: int16 where "posLocked \<equiv> 0"
abbreviation posOpen :: int16 where "posOpen \<equiv> 1"
abbreviation posReleased :: int16 where "posReleased \<equiv> 2"

abbreviation dirClose :: int16 where "dirClose \<equiv> 0"
abbreviation dirOpen :: int16 where "dirOpen \<equiv> 1"

abbreviation calNothing :: int16 where "calNothing \<equiv> 0"
abbreviation calOpen :: int16 where "calOpen \<equiv> 1"
abbreviation calClose :: int16 where "calClose \<equiv> 2"
abbreviation calFinish :: int16 where "calFinish \<equiv> 3"

record ConfStruct =
  len_open :: int16
  len_close :: int16
  len_release :: int16

text \<open>What the program writes to the outside: output pins and EEPROM.\<close>

datatype effect =
    DigitalWrite nat bool
  | EepromWrite nat byte
  | EepromPut nat ConfStruct

text \<open>
  The world: the level of every input pin at every millisecond, and the value found in
  the local \<open>motor_direction\<close> when it is read without having been assigned.
\<close>

record world =
  level :: "nat \<Rightarrow> nat \<Rightarrow> bool"
  garbage :: "nat \<Rightarrow> int16"

record state =
  DayAndNight :: int16
  DoorStatus :: int16
  MotorIsMoving :: int16
  MotorCounter :: int16
  PrevCounter :: int16
  ObstacleTimeout :: ulong
  SecurityTimeout :: ulong
  RequestedPulses :: int16
  CurrentMotorPosition :: int16
  PreviousMotorPosition :: int16
  LastOperation :: int16
  CalibrationStep :: int16
  configuration :: ConfStruct
  now :: nat
  port :: "nat \<Rightarrow> bool"
  eeprom_conf :: ConfStruct
  eeprom_last :: byte
  trace :: "effect list"

subsection \<open>The Arduino primitives\<close>

definition millis :: "state \<Rightarrow> ulong" where
  "millis s = of_nat (now s)"

definition delay :: "nat \<Rightarrow> state \<Rightarrow> state" where
  "delay n s = s\<lparr>now := now s + n\<rparr>"

definition digitalRead :: "world \<Rightarrow> nat \<Rightarrow> state \<Rightarrow> int16" where
  "digitalRead w p s = (if level w p (now s) then HIGH else LOW)"

text \<open>\<open>digitalWrite\<close> takes its value as a byte and drives the pin high unless it is 0.\<close>

definition digitalWrite :: "nat \<Rightarrow> byte \<Rightarrow> state \<Rightarrow> state" where
  "digitalWrite p v s =
     s\<lparr>port := (port s)(p := (v \<noteq> 0)), trace := trace s @ [DigitalWrite p (v \<noteq> 0)]\<rparr>"

text \<open>
  The sketch uses two places of the EEPROM: the configuration structure at location 0
  (six bytes) and one byte at location 64. They do not overlap, so each is a cell.
\<close>

definition EEPROM_write_last :: "byte \<Rightarrow> state \<Rightarrow> state" where
  "EEPROM_write_last v s =
     s\<lparr>eeprom_last := v, trace := trace s @ [EepromWrite EEPROM_LOC_LAST v]\<rparr>"

definition EEPROM_put_conf :: "ConfStruct \<Rightarrow> state \<Rightarrow> state" where
  "EEPROM_put_conf c s =
     s\<lparr>eeprom_conf := c, trace := trace s @ [EepromPut EEPROM_LOC_CONF c]\<rparr>"

text \<open>The C operator \<open>!\<close> on an \<open>int\<close>, passed on as a byte.\<close>

definition lnot :: "int16 \<Rightarrow> byte" where
  "lnot x = (if x = 0 then 1 else 0)"

subsection \<open>The functions of the sketch\<close>

definition DoCalibration :: "world \<Rightarrow> state \<Rightarrow> state" where
  "DoCalibration w s =
     (if CalibrationStep s = calFinish then
        EEPROM_put_conf (configuration s) (s\<lparr>CalibrationStep := calNothing\<rparr>)
      else
        let motor_direction =
              (if CalibrationStep s = calOpen then dirOpen
               else if CalibrationStep s = calClose then dirClose
               else garbage w (now s))
        in if 0 <s CalibrationStep s then
             let s1 = s\<lparr>MotorIsMoving := 1, PrevCounter := - 1, MotorCounter := 0,
                        RequestedPulses := 1000, ObstacleTimeout := millis s\<rparr>;
                 s2 = digitalWrite PIN_MOTOR_1 (ucast motor_direction) s1;
                 s3 = digitalWrite PIN_MOTOR_2 (lnot motor_direction) s2;
                 s4 = (if motor_direction = dirClose then delay CLOSE_WAIT s3 else s3)
             in digitalWrite PIN_MOTOR_ENABLE 1 s4
           else s)"

text \<open>The part of \<open>StartMotor\<close> after its \<open>switch\<close>.\<close>

definition StartMotor_go :: "int16 \<Rightarrow> state \<Rightarrow> state" where
  "StartMotor_go motor_direction s =
     (let s1 = s\<lparr>MotorIsMoving := 1, PrevCounter := - 1, MotorCounter := 0,
                 ObstacleTimeout := millis s\<rparr>;
          s2 = digitalWrite PIN_MOTOR_1 (ucast motor_direction) s1;
          s3 = digitalWrite PIN_MOTOR_2 (lnot motor_direction) s2;
          s4 = (if motor_direction = dirClose then delay CLOSE_WAIT s3 else s3)
      in digitalWrite PIN_MOTOR_ENABLE 1 s4)"

text \<open>The target of \<open>opLock\<close> and \<open>opUnlock\<close>.\<close>

definition close_target :: "world \<Rightarrow> state \<Rightarrow> state" where
  "close_target w s =
     (let s1 = s\<lparr>RequestedPulses := len_close (configuration s)\<rparr>
      in if digitalRead w PIN_J_NO_RELEASE s1 = LOW
         then s1\<lparr>RequestedPulses := RequestedPulses s1 + len_release (configuration s1)\<rparr>
         else s1)"

definition StartMotor :: "world \<Rightarrow> state \<Rightarrow> state" where
  "StartMotor w s =
     (if MotorIsMoving s \<noteq> 0 then s
      else if LastOperation s = opOpen then
        StartMotor_go dirOpen (s\<lparr>RequestedPulses := 750\<rparr>)
      else if LastOperation s = opRelease then
        StartMotor_go dirClose (s\<lparr>RequestedPulses := len_release (configuration s)\<rparr>)
      else if LastOperation s = opLock then
        (let s1 = delay LOCK_WAIT s
         in if DoorStatus s1 \<noteq> 0 then s1
            else StartMotor_go dirClose (close_target w s1))
      else if LastOperation s = opUnlock then
        StartMotor_go dirOpen (close_target w s)
      else StartMotor_go (garbage w (now s)) s)"

definition StopMotor :: "state \<Rightarrow> state" where
  "StopMotor s =
     (let s1 = digitalWrite PIN_MOTOR_1 0 s;
          s2 = digitalWrite PIN_MOTOR_2 0 s1;
          s3 = s2\<lparr>MotorIsMoving := 0\<rparr>;
          s4 = delay 100 s3;
          s5 = digitalWrite PIN_MOTOR_ENABLE 0 s4;
          s6 = s5\<lparr>PreviousMotorPosition := CurrentMotorPosition s5\<rparr>;
          s7 = (if LastOperation s6 = opUnlock \<or> LastOperation s6 = opOpen then
                  s6\<lparr>CurrentMotorPosition := posOpen, SecurityTimeout := millis s6\<rparr>
                else if LastOperation s6 = opRelease then
                  s6\<lparr>CurrentMotorPosition := posReleased\<rparr>
                else if LastOperation s6 = opLock then
                  s6\<lparr>CurrentMotorPosition := posLocked\<rparr>
                else s6);
          s8 = EEPROM_write_last (ucast (CurrentMotorPosition s7)) s7
      in s8\<lparr>LastOperation := opNothing\<rparr>)"

definition OpenDoor :: "world \<Rightarrow> state \<Rightarrow> state" where
  "OpenDoor w s =
     (let s1 = delay 50 s
      in if digitalRead w PIN_BUTTON s1 \<noteq> 0 then s1
         else
           let s2 = (if CurrentMotorPosition s1 = posReleased then s1\<lparr>LastOperation := opOpen\<rparr>
                     else if CurrentMotorPosition s1 = posLocked then s1\<lparr>LastOperation := opUnlock\<rparr>
                     else s1)
           in StartMotor w s2)"

definition StopByObstacle :: "world \<Rightarrow> state \<Rightarrow> state" where
  "StopByObstacle w s =
     (let s1 = StopMotor s
      in if CalibrationStep s1 = calOpen then
           (let s2 = (if digitalRead w PIN_J_NO_RELEASE s1 = LOW
                      then s1\<lparr>configuration := (configuration s1)\<lparr>len_release := MotorCounter s1\<rparr>\<rparr>
                      else s1\<lparr>configuration := (configuration s1)\<lparr>len_open := MotorCounter s1\<rparr>\<rparr>)
            in DoCalibration w (s2\<lparr>CalibrationStep := calClose\<rparr>))
         else if CalibrationStep s1 = calClose then
           DoCalibration w
             (s1\<lparr>configuration := (configuration s1)\<lparr>len_close := MotorCounter s1\<rparr>,
                 CalibrationStep := calFinish\<rparr>)
         else if digitalRead w PIN_J_ERROR_YES s1 = HIGH then OpenDoor w s1
         else s1)"

text \<open>The interrupt service routine of the encoder.\<close>

definition GetEncoder :: "state \<Rightarrow> state" where
  "GetEncoder s = s\<lparr>MotorCounter := MotorCounter s + 1\<rparr>"

text \<open>
  \<open>setup\<close> (the name is taken in Isabelle). Setting the pin modes changes nothing in
  the model.
\<close>

definition setup_fn :: "world \<Rightarrow> state \<Rightarrow> state" where
  "setup_fn w s =
     (let s1 = s\<lparr>configuration := eeprom_conf s\<rparr>;
          s2 = StopMotor s1;
          s3 = s2\<lparr>CurrentMotorPosition := ucast (eeprom_last s2)\<rparr>;
          s4 = s3\<lparr>PreviousMotorPosition := CurrentMotorPosition s3\<rparr>;
          s5 = s4\<lparr>CalibrationStep := calNothing\<rparr>
      in if digitalRead w PIN_J_RESET s5 = HIGH
         then DoCalibration w (s5\<lparr>CalibrationStep := calOpen\<rparr>)
         else s5)"

definition loop :: "world \<Rightarrow> state \<Rightarrow> state" where
  "loop w s =
     (let s1 = s\<lparr>DoorStatus := digitalRead w PIN_SENSOR s\<rparr>;
          s2 = s1\<lparr>DayAndNight := digitalRead w PIN_DAYNIGHT s1\<rparr>
      in if MotorIsMoving s2 \<noteq> 0 then
           (if PrevCounter s2 \<noteq> MotorCounter s2 then
              (let s3 = s2\<lparr>PrevCounter := MotorCounter s2, ObstacleTimeout := millis s2\<rparr>
               in if RequestedPulses s3 \<le>s MotorCounter s3 then StopMotor s3 else s3)
            else if MOTOR_TIMEOUT < millis s2 - ObstacleTimeout s2 then StopByObstacle w s2
            else s2)
         else
           (let s3 = (if digitalRead w PIN_BUTTON s2 = LOW then OpenDoor w s2 else s2);
                s4 = (if CurrentMotorPosition s3 = posReleased \<and> DayAndNight s3 = HIGH
                         \<and> DoorStatus s3 = LOW
                      then StartMotor w (s3\<lparr>LastOperation := opLock\<rparr>) else s3)
            in if CurrentMotorPosition s4 = posOpen then
                 (if DoorStatus s4 = HIGH then StartMotor w (s4\<lparr>LastOperation := opRelease\<rparr>)
                  else if SECURITY_TIMEOUT < millis s4 - SecurityTimeout s4 then
                    StartMotor w
                      (s4\<lparr>LastOperation := (if DayAndNight s4 \<noteq> 0 then opLock else opRelease)\<rparr>)
                  else s4)
               else s4))"

subsection \<open>Power-on and runs\<close>

text \<open>
  At power-on every global variable is 0, the output pins are low and the EEPROM holds
  what the last session left in it.
\<close>

definition power_on :: "ConfStruct \<Rightarrow> byte \<Rightarrow> state" where
  "power_on c l =
     \<lparr>DayAndNight = 0, DoorStatus = 0, MotorIsMoving = 0, MotorCounter = 0, PrevCounter = 0,
      ObstacleTimeout = 0, SecurityTimeout = 0, RequestedPulses = 0,
      CurrentMotorPosition = 0, PreviousMotorPosition = 0, LastOperation = 0,
      CalibrationStep = 0, configuration = \<lparr>len_open = 0, len_close = 0, len_release = 0\<rparr>,
      now = 0, port = (\<lambda>p. False), eeprom_conf = c, eeprom_last = l, trace = []\<rparr>"

text \<open>
  After \<open>setup\<close> the program is a sequence of steps: an iteration of \<open>loop\<close>, an
  encoder interrupt, or time passing.
\<close>

datatype event = Loop | Pulse | Wait nat

fun step :: "world \<Rightarrow> event \<Rightarrow> state \<Rightarrow> state" where
  "step w Loop s = loop w s"
| "step w Pulse s = GetEncoder s"
| "step w (Wait n) s = delay n s"

fun run :: "world \<Rightarrow> event list \<Rightarrow> state \<Rightarrow> state" where
  "run w [] s = s"
| "run w (e # es) s = run w es (step w e s)"

definition boot :: "world \<Rightarrow> ConfStruct \<Rightarrow> byte \<Rightarrow> state" where
  "boot w c l = setup_fn w (power_on c l)"

subsection \<open>Observing a run\<close>

text \<open>
  A motion starts when the driver is enabled; \<open>StopMotor\<close> is the one function that
  writes the position byte, once per call; the configuration is persisted by a
  \<open>put\<close> at its location.
\<close>

fun is_start :: "effect \<Rightarrow> bool" where
  "is_start (DigitalWrite p v) = (p = PIN_MOTOR_ENABLE \<and> v)"
| "is_start (EepromWrite a v) = False"
| "is_start (EepromPut a c) = False"

fun is_stop :: "effect \<Rightarrow> bool" where
  "is_stop (DigitalWrite p v) = False"
| "is_stop (EepromWrite a v) = (a = EEPROM_LOC_LAST)"
| "is_stop (EepromPut a c) = False"

fun is_put :: "effect \<Rightarrow> bool" where
  "is_put (DigitalWrite p v) = False"
| "is_put (EepromWrite a v) = False"
| "is_put (EepromPut a c) = (a = EEPROM_LOC_CONF)"

definition start_count :: "effect list \<Rightarrow> nat" where
  "start_count tr = length (filter is_start tr)"

definition stop_count :: "effect list \<Rightarrow> nat" where
  "stop_count tr = length (filter is_stop tr)"

definition put_count :: "effect list \<Rightarrow> nat" where
  "put_count tr = length (filter is_put tr)"

text \<open>
  The two direction outputs as the writes of a trace leave them, and the property that
  they are never both high, checked after every single write.
\<close>

fun drive :: "bool \<times> bool \<Rightarrow> effect \<Rightarrow> bool \<times> bool" where
  "drive (a, b) (DigitalWrite p v) =
     (if p = PIN_MOTOR_1 then (v, b) else if p = PIN_MOTOR_2 then (a, v) else (a, b))"
| "drive (a, b) (EepromWrite x v) = (a, b)"
| "drive (a, b) (EepromPut x c) = (a, b)"

fun exclusive :: "bool \<times> bool \<Rightarrow> effect list \<Rightarrow> bool" where
  "exclusive (a, b) [] = (\<not> (a \<and> b))"
| "exclusive (a, b) (e # es) = (\<not> (a \<and> b) \<and> exclusive (drive (a, b) e) es)"

fun pulses :: "event list \<Rightarrow> nat" where
  "pulses [] = 0"
| "pulses (Loop # es) = pulses es"
| "pulses (Pulse # es) = Suc (pulses es)"
| "pulses (Wait n # es) = pulses es"

text \<open>
  \<open>StartMotor\<close> goes on to drive the motor unless the motor is moving already or a
  lock is asked for while the door is open.
\<close>

definition StartMotor_fires :: "state \<Rightarrow> bool" where
  "StartMotor_fires s =
     (MotorIsMoving s = 0 \<and> \<not> (LastOperation s = opLock \<and> DoorStatus s \<noteq> 0))"

subsection \<open>Test benches\<close>

text \<open>The configuration of the specification's example.\<close>

definition bench_conf :: ConfStruct where
  "bench_conf = \<lparr>len_open = 100, len_close = 80, len_release = 20\<rparr>"

text \<open>
  A visit: the reset jumper is in place (low), the button is held down for the first
  200 ms, the door is open from 300 ms to 1000 ms, the day/night pin reads high, the
  two policy jumpers read low.
\<close>

definition visit_world :: world where
  "visit_world =
     \<lparr>level = (\<lambda>p t. if p = PIN_BUTTON then 200 \<le> t
                     else if p = PIN_SENSOR then 300 \<le> t \<and> t < 1000
                     else p = PIN_DAYNIGHT),
      garbage = (\<lambda>t. 0)\<rparr>"

text \<open>The unlock runs its 100 pulses, the door is opened, the release runs its 20 pulses.\<close>

definition released_state :: state where
  "released_state =
     run visit_world
       ([Loop] @ replicate 100 Pulse @ [Loop, Wait 100, Loop] @ replicate 20 Pulse @ [Loop])
       (boot visit_world bench_conf 0)"

text \<open>
  From there the lock runs its 100 pulses and stops; the shaft is then turned from
  outside until the counter stands at 32767.
\<close>

definition saturated_state :: state where
  "saturated_state =
     run visit_world ([Loop] @ replicate 100 Pulse @ [Loop] @ replicate 32667 Pulse)
       released_state"

text \<open>
  An obstacle with the error jumper removed (its pin reads high): the button is held
  down for the first 200 ms; the unlock gets two pulses and then no more.
\<close>

definition obstacle_world :: world where
  "obstacle_world =
     \<lparr>level = (\<lambda>p t. if p = PIN_BUTTON then 200 \<le> t else p = PIN_J_ERROR_YES),
      garbage = (\<lambda>t. 0)\<rparr>"

definition stalled_state :: state where
  "stalled_state =
     run obstacle_world [Loop, Pulse, Pulse, Loop, Wait 251]
       (boot obstacle_world bench_conf 1)"



text \<open>The button is held down for good; the unlock runs its 100 pulses.\<close>

definition held_world :: world where
  "held_world = \<lparr>level = (\<lambda>p t. False), garbage = (\<lambda>t. 0)\<rparr>"

definition open_state :: state where
  "open_state =
     run held_world ([Loop] @ replicate 100 Pulse @ [Loop]) (boot held_world bench_conf 0)"

text \<open>
  A calibration: the reset jumper is removed (its pin reads high), the button is not
  touched. The opening phase meets its limit after 3 pulses, the closing phase after 5.
\<close>

definition cal_world :: world where
  "cal_world =
     \<lparr>level = (\<lambda>p t. p = PIN_J_RESET \<or> p = PIN_BUTTON), garbage = (\<lambda>t. 0)\<rparr>"

definition cal_open_stall :: state where
  "cal_open_stall =
     run cal_world ([Loop] @ replicate 3 Pulse @ [Loop, Wait 251]) (boot cal_world bench_conf 0)"

definition cal_close_stall :: state where
  "cal_close_stall =
     run cal_world ([Loop, Loop] @ replicate 5 Pulse @ [Loop, Wait 251]) cal_open_stall"

text \<open>
  The condition under which an iteration of \<open>loop\<close> calls \<open>StopByObstacle\<close>: the motor
  is moving, the counter is where the last iteration saw it, and that for more than
  \<open>MOTOR_TIMEOUT\<close> milliseconds.
\<close>

definition stall_detected :: "state \<Rightarrow> bool" where
  "stall_detected s =
     (MotorIsMoving s \<noteq> 0 \<and> PrevCounter s = MotorCounter s
      \<and> MOTOR_TIMEOUT < millis s - ObstacleTimeout s)"

subsection \<open>Invariants of a run\<close>

text \<open>
  The direction outputs: no write of the trace ever left both high, the port holds what
  the trace wrote, and both are low while the motor is idle.
\<close>

definition wired :: "state \<Rightarrow> bool" where
  "wired s =
     (exclusive (False, False) (trace s)
      \<and> foldl drive (False, False) (trace s) = (port s PIN_MOTOR_1, port s PIN_MOTOR_2)
      \<and> (MotorIsMoving s = 0 \<longrightarrow> \<not> port s PIN_MOTOR_1 \<and> \<not> port s PIN_MOTOR_2))"

text \<open>
  The calibration, where \<open>armed\<close> tells whether \<open>setup\<close> found the reset pin high: an
  armed calibration is under way with nothing put into the EEPROM yet, or it is over and
  the configuration was put once; one that was not armed never starts.
\<close>

definition cal_inv :: "bool \<Rightarrow> state \<Rightarrow> bool" where
  "cal_inv armed s =
     (if armed
      then (CalibrationStep s = calOpen \<or> CalibrationStep s = calClose) \<and> put_count (trace s) = 0
           \<or> CalibrationStep s = calNothing \<and> put_count (trace s) = 1
      else CalibrationStep s = calNothing \<and> put_count (trace s) = 0)"


section \<open>What the functions change\<close>

text \<open>
  One equation for every field that a later proof reads, so that the proofs about
  \<open>loop\<close> need not unfold the functions it calls.
\<close>

lemmas prims = millis_def delay_def digitalRead_def digitalWrite_def EEPROM_write_last_def
  EEPROM_put_conf_def lnot_def

lemmas counts = start_count_def stop_count_def put_count_def

lemma count_simps [simp]:
  "start_count [] = 0" "stop_count [] = 0" "put_count [] = 0"
  "start_count (xs @ ys) = start_count xs + start_count ys"
  "stop_count (xs @ ys) = stop_count xs + stop_count ys"
  "put_count (xs @ ys) = put_count xs + put_count ys"
  "start_count (e # es) = (if is_start e then 1 else 0) + start_count es"
  "stop_count (e # es) = (if is_stop e then 1 else 0) + stop_count es"
  "put_count (e # es) = (if is_put e then 1 else 0) + put_count es"
  by (simp_all add: counts)

lemma delay_fields [simp]:
  "MotorIsMoving (delay n s) = MotorIsMoving s"
  "MotorCounter (delay n s) = MotorCounter s"
  "LastOperation (delay n s) = LastOperation s"
  "CurrentMotorPosition (delay n s) = CurrentMotorPosition s"
  "CalibrationStep (delay n s) = CalibrationStep s"
  "configuration (delay n s) = configuration s"
  "DoorStatus (delay n s) = DoorStatus s"
  "DayAndNight (delay n s) = DayAndNight s"
  "RequestedPulses (delay n s) = RequestedPulses s"
  "PrevCounter (delay n s) = PrevCounter s"
  "ObstacleTimeout (delay n s) = ObstacleTimeout s"
  "SecurityTimeout (delay n s) = SecurityTimeout s"
  "PreviousMotorPosition (delay n s) = PreviousMotorPosition s"
  "eeprom_conf (delay n s) = eeprom_conf s"
  "eeprom_last (delay n s) = eeprom_last s"
  "now (delay n s) = now s + n"
  "port (delay n s) = port s"
  "trace (delay n s) = trace s"
  by (simp_all add: delay_def)

subsection \<open>StopMotor\<close>

lemma StopMotor_fields [simp]:
  "MotorIsMoving (StopMotor s) = 0"
  "MotorCounter (StopMotor s) = MotorCounter s"
  "LastOperation (StopMotor s) = opNothing"
  "CalibrationStep (StopMotor s) = CalibrationStep s"
  "configuration (StopMotor s) = configuration s"
  "eeprom_conf (StopMotor s) = eeprom_conf s"
  "DoorStatus (StopMotor s) = DoorStatus s"
  "DayAndNight (StopMotor s) = DayAndNight s"
  "RequestedPulses (StopMotor s) = RequestedPulses s"
  "now (StopMotor s) = now s + 100"
  "PreviousMotorPosition (StopMotor s) = CurrentMotorPosition s"
  by (simp_all add: StopMotor_def prims Let_def)

lemma StopMotor_position [simp]:
  "CurrentMotorPosition (StopMotor s) =
     (if LastOperation s = opUnlock \<or> LastOperation s = opOpen then posOpen
      else if LastOperation s = opRelease then posReleased
      else if LastOperation s = opLock then posLocked
      else CurrentMotorPosition s)"
  by (simp add: StopMotor_def prims Let_def)

lemma StopMotor_eeprom [simp]:
  "eeprom_last (StopMotor s) = ucast (CurrentMotorPosition (StopMotor s))"
  by (simp add: StopMotor_def prims Let_def)

lemma StopMotor_port [simp]:
  "port (StopMotor s) =
     (port s)(PIN_MOTOR_1 := False, PIN_MOTOR_2 := False, PIN_MOTOR_ENABLE := False)"
  by (simp add: StopMotor_def prims Let_def)

lemma StopMotor_trace:
  "trace (StopMotor s) =
     trace s @ [DigitalWrite PIN_MOTOR_1 False, DigitalWrite PIN_MOTOR_2 False,
                DigitalWrite PIN_MOTOR_ENABLE False,
                EepromWrite EEPROM_LOC_LAST (ucast (CurrentMotorPosition (StopMotor s)))]"
  by (simp add: StopMotor_def prims Let_def)

lemma StopMotor_counts [simp]:
  "start_count (trace (StopMotor s)) = start_count (trace s)"
  "stop_count (trace (StopMotor s)) = Suc (stop_count (trace s))"
  "put_count (trace (StopMotor s)) = put_count (trace s)"
  by (simp_all add: StopMotor_trace counts)

subsection \<open>StartMotor\<close>

lemma StartMotor_go_fields [simp]:
  "MotorIsMoving (StartMotor_go d s) = 1"
  "MotorCounter (StartMotor_go d s) = 0"
  "PrevCounter (StartMotor_go d s) = - 1"
  "ObstacleTimeout (StartMotor_go d s) = millis s"
  "RequestedPulses (StartMotor_go d s) = RequestedPulses s"
  "LastOperation (StartMotor_go d s) = LastOperation s"
  "CurrentMotorPosition (StartMotor_go d s) = CurrentMotorPosition s"
  "CalibrationStep (StartMotor_go d s) = CalibrationStep s"
  "configuration (StartMotor_go d s) = configuration s"
  "eeprom_conf (StartMotor_go d s) = eeprom_conf s"
  "eeprom_last (StartMotor_go d s) = eeprom_last s"
  "DoorStatus (StartMotor_go d s) = DoorStatus s"
  "DayAndNight (StartMotor_go d s) = DayAndNight s"
  "SecurityTimeout (StartMotor_go d s) = SecurityTimeout s"
  "now (StartMotor_go d s) = now s + (if d = dirClose then CLOSE_WAIT else 0)"
  by (simp_all add: StartMotor_go_def prims Let_def)

lemma StartMotor_go_port [simp]:
  "port (StartMotor_go d s) =
     (port s)(PIN_MOTOR_1 := (ucast d \<noteq> (0::byte)), PIN_MOTOR_2 := (d = 0),
              PIN_MOTOR_ENABLE := True)"
  by (simp add: StartMotor_go_def prims Let_def)

lemma StartMotor_go_trace:
  "trace (StartMotor_go d s) =
     trace s @ [DigitalWrite PIN_MOTOR_1 (ucast d \<noteq> (0::byte)), DigitalWrite PIN_MOTOR_2 (d = 0),
                DigitalWrite PIN_MOTOR_ENABLE True]"
  by (simp add: StartMotor_go_def prims Let_def)

lemma StartMotor_go_counts [simp]:
  "start_count (trace (StartMotor_go d s)) = Suc (start_count (trace s))"
  "stop_count (trace (StartMotor_go d s)) = stop_count (trace s)"
  "put_count (trace (StartMotor_go d s)) = put_count (trace s)"
  by (simp_all add: StartMotor_go_trace counts)

lemma close_target_fields [simp]:
  "MotorIsMoving (close_target w s) = MotorIsMoving s"
  "MotorCounter (close_target w s) = MotorCounter s"
  "LastOperation (close_target w s) = LastOperation s"
  "CurrentMotorPosition (close_target w s) = CurrentMotorPosition s"
  "CalibrationStep (close_target w s) = CalibrationStep s"
  "configuration (close_target w s) = configuration s"
  "eeprom_conf (close_target w s) = eeprom_conf s"
  "eeprom_last (close_target w s) = eeprom_last s"
  "DoorStatus (close_target w s) = DoorStatus s"
  "DayAndNight (close_target w s) = DayAndNight s"
  "SecurityTimeout (close_target w s) = SecurityTimeout s"
  "now (close_target w s) = now s"
  "port (close_target w s) = port s"
  "trace (close_target w s) = trace s"
  by (simp_all add: close_target_def prims Let_def)

lemma close_target_pulses [simp]:
  "RequestedPulses (close_target w s) =
     (if level w PIN_J_NO_RELEASE (now s) then len_close (configuration s)
      else len_close (configuration s) + len_release (configuration s))"
  by (simp add: close_target_def prims Let_def)

lemma StartMotor_fields [simp]:
  "MotorIsMoving (StartMotor w s) = (if StartMotor_fires s then 1 else MotorIsMoving s)"
  "MotorCounter (StartMotor w s) = (if StartMotor_fires s then 0 else MotorCounter s)"
  "LastOperation (StartMotor w s) = LastOperation s"
  "CurrentMotorPosition (StartMotor w s) = CurrentMotorPosition s"
  "CalibrationStep (StartMotor w s) = CalibrationStep s"
  "configuration (StartMotor w s) = configuration s"
  "eeprom_conf (StartMotor w s) = eeprom_conf s"
  "eeprom_last (StartMotor w s) = eeprom_last s"
  "DoorStatus (StartMotor w s) = DoorStatus s"
  "DayAndNight (StartMotor w s) = DayAndNight s"
  "SecurityTimeout (StartMotor w s) = SecurityTimeout s"
  by (simp_all add: StartMotor_def StartMotor_fires_def prims Let_def)

lemma StartMotor_counts [simp]:
  "start_count (trace (StartMotor w s)) =
     (if StartMotor_fires s then Suc (start_count (trace s)) else start_count (trace s))"
  "stop_count (trace (StartMotor w s)) = stop_count (trace s)"
  "put_count (trace (StartMotor w s)) = put_count (trace s)"
  by (simp_all add: StartMotor_def StartMotor_fires_def delay_def Let_def)

lemma StartMotor_fires_upd [simp]:
  "StartMotor_fires (s\<lparr>LastOperation := x\<rparr>) = (MotorIsMoving s = 0 \<and> \<not> (x = opLock \<and> DoorStatus s \<noteq> 0))"
  "StartMotor_fires (delay n s) = StartMotor_fires s"
  by (simp_all add: StartMotor_fires_def delay_def)

lemma StartMotor_lock:
  "MotorIsMoving s = 0 \<Longrightarrow> LastOperation s = opLock \<Longrightarrow> DoorStatus s = 0 \<Longrightarrow>
   StartMotor w s = StartMotor_go dirClose (close_target w (delay LOCK_WAIT s))"
  by (simp add: StartMotor_def Let_def)

subsection \<open>DoCalibration\<close>

lemma DoCalibration_fields [simp]:
  "CalibrationStep (DoCalibration w s) =
     (if CalibrationStep s = calFinish then calNothing else CalibrationStep s)"
  "configuration (DoCalibration w s) = configuration s"
  "eeprom_conf (DoCalibration w s) =
     (if CalibrationStep s = calFinish then configuration s else eeprom_conf s)"
  "eeprom_last (DoCalibration w s) = eeprom_last s"
  "MotorCounter (DoCalibration w s) =
     (if CalibrationStep s \<noteq> calFinish \<and> 0 <s CalibrationStep s then 0 else MotorCounter s)"
  "MotorIsMoving (DoCalibration w s) =
     (if CalibrationStep s \<noteq> calFinish \<and> 0 <s CalibrationStep s then 1 else MotorIsMoving s)"
  "CurrentMotorPosition (DoCalibration w s) = CurrentMotorPosition s"
  "LastOperation (DoCalibration w s) = LastOperation s"
  by (simp_all add: DoCalibration_def prims Let_def)

lemma DoCalibration_more [simp]:
  "PreviousMotorPosition (DoCalibration w s) = PreviousMotorPosition s"
  by (simp add: DoCalibration_def prims Let_def)

lemma DoCalibration_counts [simp]:
  "start_count (trace (DoCalibration w s)) =
     (if CalibrationStep s \<noteq> calFinish \<and> 0 <s CalibrationStep s
      then Suc (start_count (trace s)) else start_count (trace s))"
  "stop_count (trace (DoCalibration w s)) = stop_count (trace s)"
  "put_count (trace (DoCalibration w s)) =
     (if CalibrationStep s = calFinish then Suc (put_count (trace s)) else put_count (trace s))"
  by (simp_all add: DoCalibration_def prims Let_def counts)

subsection \<open>StopByObstacle and the stall in loop\<close>

text \<open>
  A stalled iteration of \<open>loop\<close> is a call of \<open>StopByObstacle\<close>; a stall comes about
  by waiting while the motor is moving and the counter stands still.
\<close>

lemma loop_stall:
  "stall_detected s \<Longrightarrow>
   loop w s = StopByObstacle w (s\<lparr>DoorStatus := digitalRead w PIN_SENSOR s,
                                  DayAndNight := digitalRead w PIN_DAYNIGHT s\<rparr>)"
  by (simp add: loop_def stall_detected_def Let_def digitalRead_def millis_def)



lemma StopByObstacle_cal:
  "CalibrationStep (StopByObstacle w s) =
     (if CalibrationStep s = calOpen then calClose
      else if CalibrationStep s = calClose then calNothing
      else CalibrationStep s)"
  "put_count (trace (StopByObstacle w s)) =
     (if CalibrationStep s = calClose then Suc (put_count (trace s)) else put_count (trace s))"
  by (simp_all add: StopByObstacle_def OpenDoor_def Let_def)

lemma StopByObstacle_conf:
  "configuration (StopByObstacle w s) =
     (if CalibrationStep s = calOpen then
        (if level w PIN_J_NO_RELEASE (now s + 100)
         then (configuration s)\<lparr>len_open := MotorCounter s\<rparr>
         else (configuration s)\<lparr>len_release := MotorCounter s\<rparr>)
      else if CalibrationStep s = calClose then (configuration s)\<lparr>len_close := MotorCounter s\<rparr>
      else configuration s)"
  "eeprom_conf (StopByObstacle w s) =
     (if CalibrationStep s = calClose then (configuration s)\<lparr>len_close := MotorCounter s\<rparr>
      else eeprom_conf s)"
  by (simp_all add: StopByObstacle_def OpenDoor_def Let_def digitalRead_def)


lemma StopByObstacle_close_moving:
  "CalibrationStep s = calClose \<Longrightarrow> MotorIsMoving (StopByObstacle w s) = 0"
  by (simp add: StopByObstacle_def Let_def)

lemma stall_reopen_needs_button:
  assumes "stall_detected s" and "CalibrationStep s = calNothing"
    and "level w PIN_J_ERROR_YES (now s + 100)" and "level w PIN_BUTTON (now s + 100 + 50)"
  shows "loop w s = delay 50 (StopMotor (s\<lparr>DoorStatus := digitalRead w PIN_SENSOR s,
                                  DayAndNight := digitalRead w PIN_DAYNIGHT s\<rparr>))"
  using assms
  by (simp add: loop_stall StopByObstacle_def OpenDoor_def Let_def digitalRead_def)


lemma loop_no_stall_cal:
  "\<not> stall_detected s \<Longrightarrow>
   CalibrationStep (loop w s) = CalibrationStep s
   \<and> put_count (trace (loop w s)) = put_count (trace s)
   \<and> configuration (loop w s) = configuration s
   \<and> eeprom_conf (loop w s) = eeprom_conf s"
proof (cases "MotorIsMoving s = 0")
  case True
  then show ?thesis by (simp add: loop_def OpenDoor_def Let_def)
next
  case moving: False
  assume quiet: "\<not> stall_detected s"
  show ?thesis
  proof (cases "PrevCounter s = MotorCounter s")
    case True
    with moving quiet have "\<not> MOTOR_TIMEOUT < millis s - ObstacleTimeout s"
      by (simp add: stall_detected_def)
    with moving True show ?thesis by (simp add: loop_def Let_def millis_def)
  next
    case False
    with moving show ?thesis by (simp add: loop_def Let_def)
  qed
qed

section \<open>The pulse counter along a run\<close>

text \<open>
  Every function either starts no motion and leaves the counter alone, or starts one
  motion and leaves the counter at 0.
\<close>

text \<open>
  Every function either starts no motion and leaves the counter alone, or starts one
  motion and leaves the counter at 0.
\<close>

lemma OpenDoor_counter:
  "(start_count (trace (OpenDoor w s)) = start_count (trace s) \<and> MotorCounter (OpenDoor w s) = MotorCounter s
      \<and> MotorIsMoving (OpenDoor w s) = MotorIsMoving s)
   \<or> (start_count (trace (OpenDoor w s)) = Suc (start_count (trace s)) \<and> MotorCounter (OpenDoor w s) = 0
      \<and> MotorIsMoving (OpenDoor w s) = 1)"
  by (auto simp add: OpenDoor_def Let_def delay_def StartMotor_fires_def)

lemma StopByObstacle_counter:
  "(start_count (trace (StopByObstacle w s)) = start_count (trace s) \<and> MotorCounter (StopByObstacle w s) = MotorCounter s)
   \<or> (start_count (trace (StopByObstacle w s)) = Suc (start_count (trace s)) \<and> MotorCounter (StopByObstacle w s) = 0
      \<and> MotorIsMoving (StopByObstacle w s) = 1)"
  by (simp add: StopByObstacle_def OpenDoor_def Let_def delay_def StartMotor_fires_def word_sless_alt)

lemma loop_counter:
  "(start_count (trace (loop w s)) = start_count (trace s) \<and> MotorCounter (loop w s) = MotorCounter s)
   \<or> (start_count (trace (loop w s)) = Suc (start_count (trace s)) \<and> MotorCounter (loop w s) = 0
      \<and> MotorIsMoving (loop w s) = 1)"
proof (cases "MotorIsMoving s = 0")
  case False
  then show ?thesis
    using StopByObstacle_counter [of w "s\<lparr>DoorStatus := digitalRead w PIN_SENSOR s,
        DayAndNight := digitalRead w PIN_DAYNIGHT s\<rparr>"]
    by (simp add: loop_def Let_def digitalRead_def)
next
  case True
  then show ?thesis
    by (simp add: loop_def OpenDoor_def Let_def delay_def StartMotor_fires_def)
qed

lemma step_counter:
  "(start_count (trace (step w e s)) = start_count (trace s)
      \<and> MotorCounter (step w e s) = MotorCounter s + (if e = Pulse then 1 else 0))
   \<or> (start_count (trace (step w e s)) = Suc (start_count (trace s)) \<and> MotorCounter (step w e s) = 0
      \<and> MotorIsMoving (step w e s) = 1)"
proof (cases e)
  case Loop
  then show ?thesis using loop_counter [of w s] by auto
next
  case Pulse
  then show ?thesis by (simp add: GetEncoder_def)
next
  case (Wait n)
  then show ?thesis by (simp add: delay_def)
qed

lemma start_count_step: "start_count (trace s) \<le> start_count (trace (step w e s))"
  using step_counter [of w e s] by auto

lemma start_count_run: "start_count (trace s) \<le> start_count (trace (run w es s))"
proof (induction es arbitrary: s)
  case Nil
  show ?case by simp
next
  case (Cons e es)
  have "start_count (trace s) \<le> start_count (trace (step w e s))"
    by (rule start_count_step)
  also have "\<dots> \<le> start_count (trace (run w es (step w e s)))"
    by (rule Cons.IH)
  finally show ?case by simp
qed

lemma counter_between_starts:
  "start_count (trace (run w es s)) = start_count (trace s) \<Longrightarrow>
   MotorCounter (run w es s) = MotorCounter s + of_nat (pulses es)"
proof (induction es arbitrary: s)
  case Nil
  show ?case by simp
next
  case (Cons e es)
  let ?t = "step w e s"
  have le1: "start_count (trace s) \<le> start_count (trace ?t)" by (rule start_count_step)
  have le2: "start_count (trace ?t) \<le> start_count (trace (run w es ?t))" by (rule start_count_run)
  from Cons.prems have eq: "start_count (trace (run w es ?t)) = start_count (trace s)" by simp
  from le1 le2 eq have same: "start_count (trace ?t) = start_count (trace s)" by linarith
  with eq have "start_count (trace (run w es ?t)) = start_count (trace ?t)" by simp
  then have ih: "MotorCounter (run w es ?t) = MotorCounter ?t + of_nat (pulses es)"
    by (rule Cons.IH)
  from same step_counter [of w e s]
  have "MotorCounter ?t = MotorCounter s + (if e = Pulse then 1 else 0)" by auto
  with ih show ?case by (cases e) simp_all
qed

text \<open>Adding to a 16-bit \<open>int\<close> that stays within its range.\<close>

lemma sint_succ:
  fixes x :: int16
  assumes "x \<noteq> 32767"
  shows "sint (x + 1) = sint x + 1"
proof -
  have "sint x \<noteq> 32767"
  proof
    assume "sint x = 32767"
    then have "word_of_int (sint x) = (word_of_int 32767 :: int16)" by simp
    then show False using assms by simp
  qed
  moreover have "sint x < 32768" using sint_lt [of x] by simp
  moreover have "- 32768 \<le> sint x" using sint_ge [of x] by simp
  ultimately have "- 32768 \<le> sint x + 1" "sint x + 1 < 32768" by linarith+
  then have "signed_take_bit 15 (sint x + 1) = sint x + 1"
    by (intro signed_take_bit_int_eq_self) simp_all
  then show ?thesis by (simp add: sint_word_ariths)
qed

lemma sint_add_nat:
  fixes x :: int16
  shows "sint x + int n \<le> 32767 \<Longrightarrow> sint (x + of_nat n) = sint x + int n"
proof (induction n)
  case 0
  show ?case by simp
next
  case (Suc n)
  then have ih: "sint (x + of_nat n) = sint x + int n" by simp
  have "x + of_nat n \<noteq> 32767"
  proof
    assume "x + of_nat n = 32767"
    then have "sint (x + of_nat n) = 32767" by simp
    with ih Suc.prems show False by simp
  qed
  then have "sint ((x + of_nat n) + 1) = sint (x + of_nat n) + 1" by (rule sint_succ)
  then have "sint (x + of_nat (Suc n)) = sint (x + of_nat n) + 1" by (simp add: ac_simps)
  also have "\<dots> = sint x + int (Suc n)" using ih by simp
  finally show ?case .
qed

section \<open>The direction outputs along a run\<close>

text \<open>
  \<open>wired\<close> holds at power-on and every function keeps it. The motor is always idle
  when a motion is started, so the two direction writes start from both pins low.
\<close>

lemma exclusive_append:
  "exclusive ab (xs @ ys) = (exclusive ab xs \<and> exclusive (foldl drive ab xs) ys)"
proof (induction xs arbitrary: ab)
  case Nil
  show ?case by (cases ab; cases ys) auto
next
  case (Cons x xs)
  show ?case by (cases ab) (simp add: Cons.IH)
qed

lemma exclusive_final:
  "exclusive ab xs \<Longrightarrow> \<not> (fst (foldl drive ab xs) \<and> snd (foldl drive ab xs))"
proof (induction xs arbitrary: ab)
  case Nil
  then show ?case by (cases ab) simp
next
  case (Cons x xs)
  then show ?case by (cases ab) simp
qed

lemma wired_exclusive: "wired s \<Longrightarrow> \<not> (port s PIN_MOTOR_1 \<and> port s PIN_MOTOR_2)"
  using exclusive_final [of "(False, False)" "trace s"] by (simp add: wired_def)

lemma wired_frame [simp]:
  "wired (s\<lparr>RequestedPulses := x\<rparr>) = wired s"
  "wired (s\<lparr>LastOperation := y\<rparr>) = wired s"
  "wired (s\<lparr>DoorStatus := y\<rparr>) = wired s"
  "wired (s\<lparr>DayAndNight := y\<rparr>) = wired s"
  "wired (s\<lparr>PrevCounter := y\<rparr>) = wired s"
  "wired (s\<lparr>MotorCounter := y\<rparr>) = wired s"
  "wired (s\<lparr>ObstacleTimeout := z\<rparr>) = wired s"
  "wired (s\<lparr>configuration := c\<rparr>) = wired s"
  "wired (s\<lparr>CalibrationStep := y\<rparr>) = wired s"
  "wired (s\<lparr>CurrentMotorPosition := y\<rparr>) = wired s"
  "wired (s\<lparr>PreviousMotorPosition := y\<rparr>) = wired s"
  "wired (s\<lparr>now := t\<rparr>) = wired s"
  "wired (delay n s) = wired s"
  "wired (close_target w s) = wired s"
  "wired (GetEncoder s) = wired s"
  by (simp_all add: wired_def delay_def GetEncoder_def)

lemma wired_StopMotor [simp]: "wired s \<Longrightarrow> wired (StopMotor s)"
  using wired_exclusive [of s]
  by (cases "foldl drive (False, False) (trace s)")
     (auto simp add: wired_def StopMotor_trace exclusive_append)

lemma wired_StartMotor_go:
  "wired s \<Longrightarrow> MotorIsMoving s = 0 \<Longrightarrow> wired (StartMotor_go d s)"
  by (auto simp add: wired_def StartMotor_go_trace exclusive_append)

lemma wired_StartMotor [simp]: "wired s \<Longrightarrow> wired (StartMotor w s)"
  by (simp add: StartMotor_def wired_StartMotor_go Let_def)

lemma wired_DoCalibration:
  "wired s \<Longrightarrow> MotorIsMoving s = 0 \<Longrightarrow> wired (DoCalibration w s)"
  by (auto simp add: wired_def DoCalibration_def prims Let_def exclusive_append)

lemma wired_OpenDoor [simp]: "wired s \<Longrightarrow> wired (OpenDoor w s)"
  by (simp add: OpenDoor_def Let_def)

lemma wired_StopByObstacle [simp]: "wired s \<Longrightarrow> wired (StopByObstacle w s)"
  by (simp add: StopByObstacle_def Let_def wired_DoCalibration)

lemma wired_loop: "wired s \<Longrightarrow> wired (loop w s)"
  by (simp add: loop_def Let_def)

lemma wired_step: "wired s \<Longrightarrow> wired (step w e s)"
  by (cases e) (simp_all add: wired_loop)

lemma wired_run: "wired s \<Longrightarrow> wired (run w es s)"
  by (induction es arbitrary: s) (simp_all add: wired_step)

lemma wired_power_on: "wired (power_on c l)"
  by (simp add: wired_def power_on_def)

lemma wired_boot: "wired (boot w c l)"
proof -
  have "wired (StopMotor ((power_on c l)\<lparr>configuration := eeprom_conf (power_on c l)\<rparr>))"
    by (simp add: wired_power_on)
  then show ?thesis
    by (simp add: boot_def setup_fn_def Let_def wired_DoCalibration)
qed

section \<open>The calibration along a run\<close>

text \<open>
  The calibration step and the number of configurations put into the EEPROM change in
  one place only: the iteration of \<open>loop\<close> that handles a stall.
\<close>

lemma step_cal:
  "CalibrationStep (step w e s) =
     (if e = Loop \<and> stall_detected s \<and> CalibrationStep s = calOpen then calClose
      else if e = Loop \<and> stall_detected s \<and> CalibrationStep s = calClose then calNothing
      else CalibrationStep s)"
  "put_count (trace (step w e s)) =
     (if e = Loop \<and> stall_detected s \<and> CalibrationStep s = calClose
      then Suc (put_count (trace s)) else put_count (trace s))"
proof -
  show "CalibrationStep (step w e s) =
     (if e = Loop \<and> stall_detected s \<and> CalibrationStep s = calOpen then calClose
      else if e = Loop \<and> stall_detected s \<and> CalibrationStep s = calClose then calNothing
      else CalibrationStep s)"
  proof (cases e)
    case Loop
    then show ?thesis
      using loop_no_stall_cal [of s w]
      by (cases "stall_detected s") (simp_all add: loop_stall StopByObstacle_cal)
  qed (simp_all add: GetEncoder_def)
  show "put_count (trace (step w e s)) =
     (if e = Loop \<and> stall_detected s \<and> CalibrationStep s = calClose
      then Suc (put_count (trace s)) else put_count (trace s))"
  proof (cases e)
    case Loop
    then show ?thesis
      using loop_no_stall_cal [of s w]
      by (cases "stall_detected s") (simp_all add: loop_stall StopByObstacle_cal)
  qed (simp_all add: GetEncoder_def)
qed

lemma cal_inv_step: "cal_inv a s \<Longrightarrow> cal_inv a (step w e s)"
  by (auto simp add: cal_inv_def step_cal split: if_splits)

lemma cal_inv_run: "cal_inv a s \<Longrightarrow> cal_inv a (run w es s)"
  by (induction es arbitrary: s) (simp_all add: cal_inv_step)

lemma boot_cal:
  "CalibrationStep (boot w c l) = (if level w PIN_J_RESET 100 then calOpen else calNothing)"
  "put_count (trace (boot w c l)) = 0"
  by (simp_all add: boot_def setup_fn_def Let_def digitalRead_def power_on_def)

lemma cal_inv_boot: "cal_inv (level w PIN_J_RESET 100) (boot w c l)"
  by (simp add: cal_inv_def boot_cal)

lemma no_rearm: "CalibrationStep s = calNothing \<Longrightarrow> CalibrationStep (run w es s) = calNothing"
  by (induction es arbitrary: s) (simp_all add: step_cal)

section \<open>The test benches\<close>

text \<open>
  The fields of the bench states that the theorems below read, computed from power-on.
\<close>

text \<open>The fields of the bench states that the theorems below read.\<close>

lemmas fns = DoCalibration_def StartMotor_go_def close_target_def StartMotor_def StopMotor_def
  OpenDoor_def StopByObstacle_def GetEncoder_def setup_fn_def loop_def power_on_def boot_def

lemma run_append: "run w (xs @ ys) s = run w ys (run w xs s)"
  by (induction xs arbitrary: s) simp_all

lemma run_pulses: "run w (replicate n Pulse) s = s\<lparr>MotorCounter := MotorCounter s + of_nat n\<rparr>"
proof (induction n arbitrary: s)
  case 0
  show ?case by simp
next
  case (Suc n)
  show ?case by (simp add: Suc.IH GetEncoder_def ac_simps)
qed

lemmas eval = run_append run_pulses fns prims Let_def word_sle_eq word_sless_alt
  bench_conf_def

lemma boot_fields:
  "configuration (boot w c l) = c"
  "MotorIsMoving (boot w c l) = (if level w PIN_J_RESET 100 then 1 else 0)"
  "now (boot w c l) = 100"
  "DoorStatus (boot w c l) = 0"
  by (simp_all add: boot_def setup_fn_def Let_def digitalRead_def power_on_def word_sless_alt
      DoCalibration_def prims)

lemma released_state_fields:
  "MotorIsMoving released_state = 0"
  "CurrentMotorPosition released_state = posReleased"
  "LastOperation released_state = opNothing"
  "DoorStatus released_state = 0"
  "configuration released_state = bench_conf"
  "now released_state = 1950"
  "MotorCounter released_state = 20"
  "CalibrationStep released_state = calNothing"
  by (simp_all add: released_state_def visit_world_def eval)

lemma released_state_trace:
  "start_count (trace released_state) = 2"
  by (simp add: released_state_def visit_world_def eval counts)

lemma saturated_fields:
  "MotorCounter saturated_state = 32767"
  "MotorIsMoving saturated_state = 0"
  "CurrentMotorPosition saturated_state = posLocked"
  "start_count (trace saturated_state) = 3"
  by (simp_all add: saturated_state_def released_state_def visit_world_def eval counts)

lemma stalled_fields:
  "MotorIsMoving stalled_state = 1"
  "PrevCounter stalled_state = MotorCounter stalled_state"
  "MOTOR_TIMEOUT < millis stalled_state - ObstacleTimeout stalled_state"
  "CalibrationStep stalled_state = calNothing"
  "now stalled_state = 401"
  "LastOperation stalled_state = opUnlock"
  by (simp_all add: stalled_state_def obstacle_world_def eval)




lemma open_fields:
  "MotorIsMoving open_state = 0"
  "LastOperation open_state = opNothing"
  "CurrentMotorPosition open_state = posOpen"
  "RequestedPulses open_state = 100"
  "MotorCounter open_state = 100"
  "now open_state = 250"
  "SecurityTimeout open_state = 250"
  "DoorStatus open_state = 0"
  by (simp_all add: open_state_def held_world_def eval)

lemma cal_fields:
  "CalibrationStep (boot cal_world bench_conf 0) = calOpen"
  "CalibrationStep cal_open_stall = calOpen"
  "MotorCounter cal_open_stall = 3"
  "CalibrationStep cal_close_stall = calClose"
  "MotorCounter cal_close_stall = 5"
  "configuration cal_close_stall = \<lparr>len_open = 100, len_close = 80, len_release = 3\<rparr>"
  "put_count (trace cal_close_stall) = 0"
  by (simp_all add: cal_close_stall_def cal_open_stall_def cal_world_def eval counts)

lemma more_fields:
  "stall_detected cal_open_stall"
  "stall_detected cal_close_stall"
  "now cal_open_stall = 351"
  "now cal_close_stall = 2202"
  "configuration cal_open_stall = bench_conf"
  "eeprom_conf cal_close_stall = bench_conf"
  by (simp_all add: stall_detected_def cal_close_stall_def cal_open_stall_def cal_world_def eval)

section \<open>The claims\<close>

subsection \<open>C1: the position at boot\<close>

text \<open>
  Claim C1 says that after \<open>setup\<close> the position is the one the last session
  persisted. \<open>setup\<close> calls \<open>StopMotor\<close> before it reads the EEPROM, and
  \<open>StopMotor\<close> writes the current position there, which at power-on is 0: whatever
  byte the last session left, the position and its shadow are \<open>posLocked\<close> after
  \<open>setup\<close> and the stored byte is 0.
\<close>

theorem setup_overwrites_position:
  "CurrentMotorPosition (boot w c l) = posLocked
   \<and> PreviousMotorPosition (boot w c l) = posLocked
   \<and> eeprom_last (boot w c l) = 0"
  by (simp add: boot_def setup_fn_def Let_def power_on_def)

subsection \<open>C2: the day/night input\<close>

text \<open>
  Claim C2 reads a high day/night pin as ``keep unlocked'': with the pin high, position
  \<open>posReleased\<close> and the door closed no lock would be dispatched. In the visit of the
  test bench the pin is high, the position is \<open>posReleased\<close>, the door is closed and the
  motor is idle: the next iteration of \<open>loop\<close> dispatches the lock and the motor runs
  in the closing direction.
\<close>

theorem lock_dispatched_on_high:
  "MotorIsMoving released_state = 0
   \<and> CurrentMotorPosition released_state = posReleased
   \<and> level visit_world PIN_DAYNIGHT (now released_state)
   \<and> \<not> level visit_world PIN_SENSOR (now released_state)
   \<and> LastOperation (loop visit_world released_state) = opLock
   \<and> MotorIsMoving (loop visit_world released_state) = 1
   \<and> start_count (trace (loop visit_world released_state)) = Suc (start_count (trace released_state))
   \<and> RequestedPulses (loop visit_world released_state) = 100
   \<and> \<not> port (loop visit_world released_state) PIN_MOTOR_1
   \<and> port (loop visit_world released_state) PIN_MOTOR_2
   \<and> port (loop visit_world released_state) PIN_MOTOR_ENABLE"
  by (simp add: released_state_fields visit_world_def loop_def StartMotor_def OpenDoor_def
      Let_def digitalRead_def bench_conf_def)

text \<open>
  Claim C2 as the code has it. In an iteration that finds the motor idle at position
  \<open>posReleased\<close>, a lock is dispatched with the motor running only if the day/night
  pin reads high and the door sensor reads closed. With the button up, that condition
  starts the lock motion (closing direction); with the button up and the day/night pin
  low no motion starts.
\<close>

theorem lock_from_released:
  assumes "MotorIsMoving s = 0" and "CurrentMotorPosition s = posReleased"
  shows "(LastOperation (loop w s) = opLock \<and> MotorIsMoving (loop w s) \<noteq> 0
            \<longrightarrow> level w PIN_DAYNIGHT (now s) \<and> \<not> level w PIN_SENSOR (now s))
       \<and> (level w PIN_BUTTON (now s) \<and> level w PIN_DAYNIGHT (now s) \<and> \<not> level w PIN_SENSOR (now s)
            \<longrightarrow> LastOperation (loop w s) = opLock
              \<and> MotorIsMoving (loop w s) = 1
              \<and> start_count (trace (loop w s)) = Suc (start_count (trace s))
              \<and> \<not> port (loop w s) PIN_MOTOR_1
              \<and> port (loop w s) PIN_MOTOR_2
              \<and> port (loop w s) PIN_MOTOR_ENABLE)
       \<and> (level w PIN_BUTTON (now s) \<and> \<not> level w PIN_DAYNIGHT (now s)
            \<longrightarrow> MotorIsMoving (loop w s) = 0
              \<and> start_count (trace (loop w s)) = start_count (trace s))"
proof -
  have a: "level w PIN_DAYNIGHT (now s) \<and> \<not> level w PIN_SENSOR (now s)"
    if "LastOperation (loop w s) = opLock" "MotorIsMoving (loop w s) \<noteq> 0"
    using that assms
    by (simp add: loop_def OpenDoor_def Let_def digitalRead_def StartMotor_fires_def
        split: if_splits)
  have b: "LastOperation (loop w s) = opLock
              \<and> MotorIsMoving (loop w s) = 1
              \<and> start_count (trace (loop w s)) = Suc (start_count (trace s))
              \<and> \<not> port (loop w s) PIN_MOTOR_1
              \<and> port (loop w s) PIN_MOTOR_2
              \<and> port (loop w s) PIN_MOTOR_ENABLE"
    if "level w PIN_BUTTON (now s)" "level w PIN_DAYNIGHT (now s)" "\<not> level w PIN_SENSOR (now s)"
    using that assms
    by (simp add: loop_def Let_def digitalRead_def StartMotor_lock)
  have c: "MotorIsMoving (loop w s) = 0
              \<and> start_count (trace (loop w s)) = start_count (trace s)"
    if "level w PIN_BUTTON (now s)" "\<not> level w PIN_DAYNIGHT (now s)"
    using that assms
    by (simp add: loop_def Let_def digitalRead_def)
  from a b c show ?thesis by blast
qed

theorem lock_from_released_witness:
  "MotorIsMoving released_state = 0
   \<and> CurrentMotorPosition released_state = posReleased
   \<and> level visit_world PIN_BUTTON (now released_state)
   \<and> level visit_world PIN_DAYNIGHT (now released_state)
   \<and> \<not> level visit_world PIN_SENSOR (now released_state)
   \<and> LastOperation (loop visit_world released_state) = opLock
   \<and> MotorIsMoving (loop visit_world released_state) = 1
   \<and> port (loop visit_world released_state) PIN_MOTOR_2"
  using lock_from_released [of released_state visit_world]
  by (simp add: released_state_fields visit_world_def)

subsection \<open>C3: the stall with the error jumper removed\<close>

text \<open>
  Claim C3 says that a stall in normal operation with the error jumper pin high starts a
  motion that opens the door again. \<open>StopByObstacle\<close> calls \<open>OpenDoor\<close>, and
  \<open>OpenDoor\<close> returns after its debounce delay unless the button is down. In the
  obstacle of the test bench the button is up by then: the motor is stopped once and no
  motion starts.
\<close>

theorem no_reopen_without_button:
  "stall_detected stalled_state
   \<and> CalibrationStep stalled_state = calNothing
   \<and> level obstacle_world PIN_J_ERROR_YES (now stalled_state + 100)
   \<and> stop_count (trace (loop obstacle_world stalled_state)) = Suc (stop_count (trace stalled_state))
   \<and> start_count (trace (loop obstacle_world stalled_state)) = start_count (trace stalled_state)
   \<and> MotorIsMoving (loop obstacle_world stalled_state) = 0
   \<and> \<not> port (loop obstacle_world stalled_state) PIN_MOTOR_ENABLE"
proof -
  have st: "stall_detected stalled_state"
    by (simp add: stall_detected_def stalled_fields)
  have "loop obstacle_world stalled_state =
          delay 50 (StopMotor (stalled_state\<lparr>DoorStatus := digitalRead obstacle_world PIN_SENSOR stalled_state,
             DayAndNight := digitalRead obstacle_world PIN_DAYNIGHT stalled_state\<rparr>))"
    by (rule stall_reopen_needs_button [OF st])
       (simp_all add: stalled_fields obstacle_world_def)
  with st show ?thesis by (simp add: stalled_fields obstacle_world_def)
qed

subsection \<open>C4: StartMotor without an operation\<close>

text \<open>
  Claim C4. \<open>StartMotor\<close> called with the motor idle and \<open>LastOperation = opNothing\<close>:
  no case of the switch is taken and the function goes on. It marks the motor as moving,
  resets the pulse counter, leaves \<open>RequestedPulses\<close> as it was, writes the two
  direction pins from the unassigned local and enables the driver. \<open>OpenDoor\<close> makes
  that call when the button is down at position \<open>posOpen\<close>, where it assigns no
  operation.
\<close>

theorem start_without_operation:
  assumes "MotorIsMoving s = 0" and "LastOperation s = opNothing"
  shows "StartMotor w s =
           s\<lparr>MotorIsMoving := 1, PrevCounter := - 1, MotorCounter := 0,
             ObstacleTimeout := millis s,
             now := now s + (if garbage w (now s) = dirClose then CLOSE_WAIT else 0),
             port := (port s)(PIN_MOTOR_1 := (ucast (garbage w (now s)) \<noteq> (0::byte)),
                              PIN_MOTOR_2 := (garbage w (now s) = 0),
                              PIN_MOTOR_ENABLE := True),
             trace := trace s @
               [DigitalWrite PIN_MOTOR_1 (ucast (garbage w (now s)) \<noteq> (0::byte)),
                DigitalWrite PIN_MOTOR_2 (garbage w (now s) = 0),
                DigitalWrite PIN_MOTOR_ENABLE True]\<rparr>
         \<and> RequestedPulses (StartMotor w s) = RequestedPulses s
         \<and> (CurrentMotorPosition s = posOpen \<and> \<not> level w PIN_BUTTON (now s + 50)
            \<longrightarrow> OpenDoor w s = StartMotor w (delay 50 s))"
  using assms by (simp add: StartMotor_def StartMotor_go_def OpenDoor_def prims Let_def)

theorem start_without_operation_witness:
  "MotorIsMoving open_state = 0
   \<and> LastOperation open_state = opNothing
   \<and> CurrentMotorPosition open_state = posOpen
   \<and> \<not> level held_world PIN_BUTTON (now open_state + 50)
   \<and> OpenDoor held_world open_state = StartMotor held_world (delay 50 open_state)
   \<and> MotorIsMoving (OpenDoor held_world open_state) = 1
   \<and> MotorCounter (OpenDoor held_world open_state) = 0
   \<and> RequestedPulses (OpenDoor held_world open_state) = 100
   \<and> port (OpenDoor held_world open_state) PIN_MOTOR_ENABLE
   \<and> MotorIsMoving (loop held_world open_state) = 1
   \<and> LastOperation (loop held_world open_state) = opNothing
   \<and> start_count (trace (loop held_world open_state)) = Suc (start_count (trace open_state))"
proof -
  have l: "MotorIsMoving (loop held_world open_state) = 1
   \<and> LastOperation (loop held_world open_state) = opNothing
   \<and> start_count (trace (loop held_world open_state)) = Suc (start_count (trace open_state))"
    by (simp add: open_fields held_world_def loop_def OpenDoor_def StartMotor_def Let_def
        digitalRead_def millis_def delay_def)
  show ?thesis
    using l start_without_operation [of open_state held_world]
      start_without_operation [of "delay 50 open_state" held_world]
    by (simp add: open_fields held_world_def)
qed

subsection \<open>C5: the stall stops the motor once\<close>




subsection \<open>C6: the calibration\<close>

text \<open>
  Claim C6. \<open>setup\<close> arms the calibration (\<open>calOpen\<close>) exactly if the reset pin reads
  high. After that the step changes only in a stall: from \<open>calOpen\<close> to \<open>calClose\<close>,
  storing the pulse count in \<open>len_release\<close> if the no-release pin reads low and in
  \<open>len_open\<close> otherwise; from \<open>calClose\<close> through \<open>calFinish\<close> to \<open>calNothing\<close>,
  storing the pulse count in \<open>len_close\<close> and putting the whole configuration into the
  EEPROM. In a run from power-on the configuration has been put once if the calibration
  was armed and has come back to \<open>calNothing\<close>, and not at all otherwise; from
  \<open>calNothing\<close> the step never changes again.
\<close>

theorem calibration_sequence:
  "CalibrationStep (boot w c l) = (if level w PIN_J_RESET 100 then calOpen else calNothing)
   \<and> CalibrationStep (step w e s) =
       (if e = Loop \<and> stall_detected s \<and> CalibrationStep s = calOpen then calClose
        else if e = Loop \<and> stall_detected s \<and> CalibrationStep s = calClose then calNothing
        else CalibrationStep s)
   \<and> put_count (trace (step w e s)) =
       (if e = Loop \<and> stall_detected s \<and> CalibrationStep s = calClose
        then Suc (put_count (trace s)) else put_count (trace s))
   \<and> (stall_detected s \<and> CalibrationStep s = calOpen \<longrightarrow>
        configuration (loop w s) =
          (if level w PIN_J_NO_RELEASE (now s + 100)
           then (configuration s)\<lparr>len_open := MotorCounter s\<rparr>
           else (configuration s)\<lparr>len_release := MotorCounter s\<rparr>)
        \<and> eeprom_conf (loop w s) = eeprom_conf s)
   \<and> (stall_detected s \<and> CalibrationStep s = calClose \<longrightarrow>
        configuration (loop w s) = (configuration s)\<lparr>len_close := MotorCounter s\<rparr>
        \<and> eeprom_conf (loop w s) = configuration (loop w s)
        \<and> MotorIsMoving (loop w s) = 0)
   \<and> (CalibrationStep s = calFinish \<longrightarrow>
        DoCalibration w s = EEPROM_put_conf (configuration s) (s\<lparr>CalibrationStep := calNothing\<rparr>))
   \<and> put_count (trace (run w es (boot w c l))) =
       (if level w PIN_J_RESET 100 \<and> CalibrationStep (run w es (boot w c l)) = calNothing
        then 1 else 0)
   \<and> (CalibrationStep s = calNothing \<longrightarrow> CalibrationStep (run w es s) = calNothing)"
proof -
  have inv: "cal_inv (level w PIN_J_RESET 100) (run w es (boot w c l))"
    by (rule cal_inv_run [OF cal_inv_boot])
  have total: "put_count (trace (run w es (boot w c l))) =
       (if level w PIN_J_RESET 100 \<and> CalibrationStep (run w es (boot w c l)) = calNothing
        then 1 else 0)"
    using inv by (auto simp add: cal_inv_def split: if_splits)
  have open_phase: "configuration (loop w s) =
          (if level w PIN_J_NO_RELEASE (now s + 100)
           then (configuration s)\<lparr>len_open := MotorCounter s\<rparr>
           else (configuration s)\<lparr>len_release := MotorCounter s\<rparr>)
        \<and> eeprom_conf (loop w s) = eeprom_conf s"
    if "stall_detected s" "CalibrationStep s = calOpen"
    using that by (simp add: loop_stall StopByObstacle_conf)
  have close_phase: "configuration (loop w s) = (configuration s)\<lparr>len_close := MotorCounter s\<rparr>
        \<and> eeprom_conf (loop w s) = configuration (loop w s)
        \<and> MotorIsMoving (loop w s) = 0"
    if "stall_detected s" "CalibrationStep s = calClose"
    using that by (simp add: loop_stall StopByObstacle_conf StopByObstacle_close_moving)
  have fin: "DoCalibration w s = EEPROM_put_conf (configuration s) (s\<lparr>CalibrationStep := calNothing\<rparr>)"
    if "CalibrationStep s = calFinish"
    using that by (simp add: DoCalibration_def)
  show ?thesis
    using boot_cal(1) [of w c l] step_cal [of w e s] total open_phase close_phase fin
      no_rearm [of s w es]
    by blast
qed

theorem calibration_sequence_witness:
  "CalibrationStep (boot cal_world bench_conf 0) = calOpen
   \<and> stall_detected cal_open_stall \<and> CalibrationStep cal_open_stall = calOpen
   \<and> CalibrationStep (step cal_world Loop cal_open_stall) = calClose
   \<and> configuration (loop cal_world cal_open_stall) = \<lparr>len_open = 100, len_close = 80, len_release = 3\<rparr>
   \<and> stall_detected cal_close_stall \<and> CalibrationStep cal_close_stall = calClose
   \<and> CalibrationStep (step cal_world Loop cal_close_stall) = calNothing
   \<and> configuration (loop cal_world cal_close_stall) = \<lparr>len_open = 100, len_close = 5, len_release = 3\<rparr>
   \<and> eeprom_conf (loop cal_world cal_close_stall) = \<lparr>len_open = 100, len_close = 5, len_release = 3\<rparr>
   \<and> put_count (trace cal_close_stall) = 0
   \<and> put_count (trace (step cal_world Loop cal_close_stall)) = 1"
  using calibration_sequence [of cal_world bench_conf 0 Loop cal_open_stall "[]"]
    calibration_sequence [of cal_world bench_conf 0 Loop cal_close_stall "[]"]
  by (simp add: cal_fields more_fields cal_world_def bench_conf_def)

subsection \<open>C7: no lock with the door open\<close>



subsection \<open>C8: the target of lock and unlock\<close>

text \<open>
  Claim C8. With the configuration open = 100, close = 80, release = 20 and the
  no-release pin reading low, \<open>StartMotor\<close> sets \<open>RequestedPulses\<close> to 100 for a
  lock (asked for with the door closed) and for an unlock.
\<close>

theorem requested_pulses_example:
  assumes "configuration s = \<lparr>len_open = 100, len_close = 80, len_release = 20\<rparr>"
    and "MotorIsMoving s = 0"
  shows "(LastOperation s = opLock \<and> DoorStatus s = 0
            \<and> \<not> level w PIN_J_NO_RELEASE (now s + LOCK_WAIT)
          \<longrightarrow> RequestedPulses (StartMotor w s) = 100)
       \<and> (LastOperation s = opUnlock \<and> \<not> level w PIN_J_NO_RELEASE (now s)
          \<longrightarrow> RequestedPulses (StartMotor w s) = 100)"
  using assms by (simp add: StartMotor_def Let_def)

theorem requested_pulses_example_witness:
  "RequestedPulses (StartMotor visit_world (released_state\<lparr>LastOperation := opLock\<rparr>)) = 100
   \<and> RequestedPulses (StartMotor visit_world ((boot visit_world bench_conf 0)\<lparr>LastOperation := opUnlock\<rparr>)) = 100"
  using requested_pulses_example [of "released_state\<lparr>LastOperation := opLock\<rparr>" visit_world]
    requested_pulses_example [of "(boot visit_world bench_conf 0)\<lparr>LastOperation := opUnlock\<rparr>" visit_world]
  by (simp add: released_state_fields boot_fields bench_conf_def visit_world_def)

subsection \<open>C9: the direction outputs\<close>

text \<open>
  Claim C9. In every state reached from power-on by \<open>setup\<close> and any sequence of
  loop iterations, encoder interrupts and waiting, the two direction outputs are not both
  high, and they never were: the property holds after each single write of the trace.
  \<open>StopMotor\<close> leaves both low. \<open>StartMotor\<close> and \<open>DoCalibration\<close> write the
  direction to the first pin and its negation to the second; for \<open>dirOpen\<close> and
  \<open>dirClose\<close> the two levels differ. (For a direction that was never assigned the first
  pin gets the low byte of the value, so both pins may be low, never both high.)
\<close>

theorem direction_outputs_exclusive:
  "exclusive (False, False) (trace (run w es (boot w c l)))
   \<and> \<not> (port (run w es (boot w c l)) PIN_MOTOR_1 \<and> port (run w es (boot w c l)) PIN_MOTOR_2)
   \<and> \<not> port (StopMotor s) PIN_MOTOR_1 \<and> \<not> port (StopMotor s) PIN_MOTOR_2
   \<and> port (StartMotor_go dirOpen s) PIN_MOTOR_1 \<and> \<not> port (StartMotor_go dirOpen s) PIN_MOTOR_2
   \<and> \<not> port (StartMotor_go dirClose s) PIN_MOTOR_1 \<and> port (StartMotor_go dirClose s) PIN_MOTOR_2
   \<and> \<not> (port (StartMotor_go d s) PIN_MOTOR_1 \<and> port (StartMotor_go d s) PIN_MOTOR_2)
   \<and> port (DoCalibration w (s\<lparr>CalibrationStep := calOpen\<rparr>)) PIN_MOTOR_1
   \<and> \<not> port (DoCalibration w (s\<lparr>CalibrationStep := calOpen\<rparr>)) PIN_MOTOR_2
   \<and> \<not> port (DoCalibration w (s\<lparr>CalibrationStep := calClose\<rparr>)) PIN_MOTOR_1
   \<and> port (DoCalibration w (s\<lparr>CalibrationStep := calClose\<rparr>)) PIN_MOTOR_2"
proof -
  have "wired (run w es (boot w c l))" by (rule wired_run [OF wired_boot])
  then have reach: "exclusive (False, False) (trace (run w es (boot w c l)))
     \<and> \<not> (port (run w es (boot w c l)) PIN_MOTOR_1 \<and> port (run w es (boot w c l)) PIN_MOTOR_2)"
    using wired_exclusive [of "run w es (boot w c l)"] by (simp add: wired_def)
  have go: "\<not> (port (StartMotor_go d s) PIN_MOTOR_1 \<and> port (StartMotor_go d s) PIN_MOTOR_2)"
    by auto
  have cal: "port (DoCalibration w (s\<lparr>CalibrationStep := calOpen\<rparr>)) PIN_MOTOR_1
   \<and> \<not> port (DoCalibration w (s\<lparr>CalibrationStep := calOpen\<rparr>)) PIN_MOTOR_2
   \<and> \<not> port (DoCalibration w (s\<lparr>CalibrationStep := calClose\<rparr>)) PIN_MOTOR_1
   \<and> port (DoCalibration w (s\<lparr>CalibrationStep := calClose\<rparr>)) PIN_MOTOR_2"
    by (simp add: DoCalibration_def prims Let_def word_sless_alt)
  from reach go cal show ?thesis by simp
qed

theorem direction_outputs_exclusive_witness:
  "exclusive (False, False)
     (trace (run obstacle_world [Loop, Pulse, Pulse, Loop, Wait 251, Loop] (boot obstacle_world bench_conf 1)))
   \<and> \<not> (port (run obstacle_world [Loop, Pulse, Pulse, Loop, Wait 251, Loop] (boot obstacle_world bench_conf 1)) PIN_MOTOR_1
       \<and> port (run obstacle_world [Loop, Pulse, Pulse, Loop, Wait 251, Loop] (boot obstacle_world bench_conf 1)) PIN_MOTOR_2)"
  using direction_outputs_exclusive
    [of obstacle_world "[Loop, Pulse, Pulse, Loop, Wait 251, Loop]" bench_conf 1
        "boot obstacle_world bench_conf 1" dirOpen]
  by blast

subsection \<open>C10: the pulse counter\<close>

text \<open>
  Claim C10 says that the counter does not decrease between two starts of a motion. The
  counter is a 16-bit \<open>int\<close>: in the test bench the motor is idle after its third
  start and the counter stands at 32767; the next interrupt takes it to -32768.
\<close>

theorem pulse_counter_wraps:
  "MotorIsMoving saturated_state = 0
   \<and> start_count (trace saturated_state) = 3
   \<and> start_count (trace (step visit_world Pulse saturated_state)) = start_count (trace saturated_state)
   \<and> sint (MotorCounter saturated_state) = 32767
   \<and> sint (MotorCounter (step visit_world Pulse saturated_state)) = - 32768
   \<and> sint (MotorCounter (step visit_world Pulse saturated_state))
       < sint (MotorCounter saturated_state)"
  by (simp add: saturated_fields GetEncoder_def)

text \<open>
  Claim C10 as the code has it. A step in which a motion starts leaves the counter at 0:
  \<open>StartMotor\<close> and \<open>DoCalibration\<close> reset it exactly when they start the motor,
  \<open>StopMotor\<close> leaves it alone, the interrupt adds 1 modulo \<open>2 ^ 16\<close>. Over any run
  in which no motion starts the counter grows by the number of interrupts modulo
  \<open>2 ^ 16\<close>; it does not decrease as long as it stays within 32767.
\<close>

theorem pulse_counter_discipline:
  "(start_count (trace (step w e s)) \<noteq> start_count (trace s) \<longrightarrow>
      MotorCounter (step w e s) = 0 \<and> MotorIsMoving (step w e s) = 1)
   \<and> MotorCounter (StartMotor w s) = (if StartMotor_fires s then 0 else MotorCounter s)
   \<and> MotorCounter (DoCalibration w s) =
       (if CalibrationStep s \<noteq> calFinish \<and> 0 <s CalibrationStep s then 0 else MotorCounter s)
   \<and> MotorCounter (StopMotor s) = MotorCounter s
   \<and> MotorCounter (GetEncoder s) = MotorCounter s + 1
   \<and> (start_count (trace (run w es s)) = start_count (trace s) \<longrightarrow>
        MotorCounter (run w es s) = MotorCounter s + of_nat (pulses es)
        \<and> (sint (MotorCounter s) + int (pulses es) \<le> 32767 \<longrightarrow>
             sint (MotorCounter (run w es s)) = sint (MotorCounter s) + int (pulses es)
             \<and> sint (MotorCounter s) \<le> sint (MotorCounter (run w es s))))"
proof -
  have a: "MotorCounter (step w e s) = 0 \<and> MotorIsMoving (step w e s) = 1"
    if "start_count (trace (step w e s)) \<noteq> start_count (trace s)"
    using that step_counter [of w e s] by auto
  have b: "MotorCounter (run w es s) = MotorCounter s + of_nat (pulses es)"
    if "start_count (trace (run w es s)) = start_count (trace s)"
    using that by (rule counter_between_starts)
  have c: "sint (MotorCounter (run w es s)) = sint (MotorCounter s) + int (pulses es)
           \<and> sint (MotorCounter s) \<le> sint (MotorCounter (run w es s))"
    if "start_count (trace (run w es s)) = start_count (trace s)"
      and "sint (MotorCounter s) + int (pulses es) \<le> 32767"
    using that by (simp add: b sint_add_nat)
  have d: "MotorCounter (GetEncoder s) = MotorCounter s + 1" by (simp add: GetEncoder_def)
  from a b c d show ?thesis by simp
qed

theorem pulse_counter_discipline_witness:
  "start_count (trace (step visit_world Loop released_state)) \<noteq> start_count (trace released_state)
   \<and> MotorCounter (step visit_world Loop released_state) = 0
   \<and> start_count (trace (run visit_world [Pulse, Wait 5, Pulse, Pulse] released_state))
       = start_count (trace released_state)
   \<and> sint (MotorCounter released_state) = 20
   \<and> sint (MotorCounter (run visit_world [Pulse, Wait 5, Pulse, Pulse] released_state)) = 23"
proof -
  have st: "start_count (trace (step visit_world Loop released_state)) \<noteq> start_count (trace released_state)"
    by (simp add: released_state_fields visit_world_def loop_def Let_def digitalRead_def)
  have same: "start_count (trace (run visit_world [Pulse, Wait 5, Pulse, Pulse] released_state))
       = start_count (trace released_state)"
    by (simp add: GetEncoder_def delay_def)
  show ?thesis
    using st same
      pulse_counter_discipline [of visit_world Loop released_state "[Pulse, Wait 5, Pulse, Pulse]"]
    by (simp add: released_state_fields)
qed

end
